theory Spec2Isabelle
  imports Main "HOL-Library.Sublist" "HOL-Library.AList"
begin

section \<open>Data model\<close>

text \<open>
  Both Go programs of the repository (\<^verbatim>\<open>src/main.go\<close> and
  \<^verbatim>\<open>src/unnamed/part_001\<close>) declare the same types. Go strings are byte
  sequences, modelled as \<^typ>\<open>string\<close>. A Go map is a partial function; the nil map
  of \<^verbatim>\<open>node.Labels\<close> is \<open>None\<close>.
\<close>

type_synonym labels = "string \<rightharpoonup> string"

record NautobotClient =
  baseURL :: string
  authToken :: string

record NautobotDeviceData =
  SiteName :: string
  RackName :: string

text \<open>The anonymous structs of \<^verbatim>\<open>deviceResponse\<close>, fields named by their JSON tags.\<close>

record named =
  display :: string
  name :: string

record device =
  Site :: named
  Rack :: named

record deviceResponse =
  Results :: "device list"

record Node =
  Name :: string
  Labels :: "labels option"

record Request =
  Namespace :: string
  ReqName :: string

text \<open>\<^verbatim>\<open>ctrl.Result\<close>; a \<^verbatim>\<open>time.Duration\<close> counts nanoseconds.\<close>

record Result =
  Requeue :: bool
  RequeueAfter :: int

definition Second :: int where
  "Second = 1000000000"

definition Minute :: int where
  "Minute = 60 * Second"

definition Hour :: int where
  "Hour = 60 * Minute"

text \<open>
  Errors as values: one constructor for each \<^verbatim>\<open>fmt.Errorf\<close> of the source, and
  the errors the object store and the libraries hand back (their text is opaque).
\<close>

datatype error =
    NotFound
  | StoreError string
  | LibError string
  | CreateRequestError error
  | ContactError error
  | StatusError int
  | ParseError error
  | NoDeviceError string
  | UpdateLabelsError error

record http_request =
  Method :: string
  URL :: string
  Header :: "(string \<times> string) list"

record http_response =
  StatusCode :: int
  Body :: string

text \<open>
  The external collaborators answer through a \<open>world\<close>: the object store
  (\<^verbatim>\<open>r.Get\<close>, \<^verbatim>\<open>r.Update\<close>), \<^verbatim>\<open>http.NewRequest\<close> (which rejects
  some URLs), the HTTP client and the JSON decoder.
\<close>

record world =
  store_Get :: "Request \<Rightarrow> error + Node"
  store_Update :: "Node \<Rightarrow> error option"
  url_error :: "string \<Rightarrow> error option"
  http_Do :: "http_request \<Rightarrow> error + http_response"
  json_Decode :: "string \<Rightarrow> error + deviceResponse"

text \<open>What one reconcile invocation does to the outside, in order.\<close>

datatype event =
    LogInfo string
  | LogError error string
  | InventoryLookup string
  | StoreUpdate Node

record run =
  result :: Result
  err :: "error option"
  events :: "event list"

section \<open>Inventory client\<close>

text \<open>\<^verbatim>\<open>strings.Index\<close>: the index of the first instance of \<open>sub\<close>, or \<open>-1\<close>.\<close>

fun strings_Index :: "string \<Rightarrow> string \<Rightarrow> int" where
  "strings_Index [] sub = (if sub = [] then 0 else -1)"
| "strings_Index (c # cs) sub =
     (if prefix sub (c # cs) then 0
      else (let i = strings_Index cs sub in if i < 0 then -1 else i + 1))"

text \<open>Lines 62 to 65 of \<^verbatim>\<open>src/main.go\<close>: the hostname sent to Nautobot.\<close>

definition hostname :: "string \<Rightarrow> string" where
  "hostname nodeName =
     (let dotIndex = strings_Index nodeName ''.'' in
      if dotIndex > 0 then take (nat dotIndex) nodeName else nodeName)"

text \<open>\<^verbatim>\<open>http.NewRequest\<close> and the two \<^verbatim>\<open>req.Header.Set\<close> calls.\<close>

definition NewRequest :: "world \<Rightarrow> string \<Rightarrow> string \<Rightarrow> error + http_request" where
  "NewRequest w m u =
     (case url_error w u of
        Some e \<Rightarrow> Inl e
      | None \<Rightarrow> Inr \<lparr>Method = m, URL = u, Header = []\<rparr>)"

definition Header_Set :: "http_request \<Rightarrow> string \<Rightarrow> string \<Rightarrow> http_request" where
  "Header_Set req k v = req\<lparr>Header := AList.update k v (Header req)\<rparr>"

text \<open>
  \<^verbatim>\<open>GetDeviceData\<close> of \<^verbatim>\<open>src/main.go\<close>. Each early return of the source is a
  branch; \<^verbatim>\<open>Results[0]\<close> is read only behind the length check.
\<close>

definition GetDeviceData :: "world \<Rightarrow> NautobotClient \<Rightarrow> string
    \<Rightarrow> error + NautobotDeviceData" where
  "GetDeviceData w c nodeName =
     (let url = baseURL c @ ''/api/dcim/devices/?name='' @ hostname nodeName in
      case NewRequest w ''GET'' url of
        Inl e \<Rightarrow> Inl (CreateRequestError e)
      | Inr req \<Rightarrow>
          (let req = Header_Set req ''Authorization'' (''Token '' @ authToken c);
               req = Header_Set req ''Content-Type'' ''application/json''
           in case http_Do w req of
                Inl e \<Rightarrow> Inl (ContactError e)
              | Inr resp \<Rightarrow>
                  if StatusCode resp \<noteq> 200 then Inl (StatusError (StatusCode resp))
                  else (case json_Decode w (Body resp) of
                      Inl e \<Rightarrow> Inl (ParseError e)
                    | Inr dr \<Rightarrow>
                        (case Results dr of
                           [] \<Rightarrow> Inl (NoDeviceError nodeName)
                         | d # _ \<Rightarrow>
                             (let siteName = name (Site d);
                                  siteName = (if siteName = [] then display (Site d)
                                              else siteName);
                                  rackName = name (Rack d);
                                  rackName = (if rackName = [] then display (Rack d)
                                              else rackName)
                              in Inr \<lparr>SiteName = siteName, RackName = rackName\<rparr>)))))"

text \<open>
  \<^verbatim>\<open>GetDeviceData\<close> of \<^verbatim>\<open>src/unnamed/part_001\<close>: the same, but the node name
  goes into the URL as it is.
\<close>

definition GetDeviceData_plain :: "world \<Rightarrow> NautobotClient \<Rightarrow> string
    \<Rightarrow> error + NautobotDeviceData" where
  "GetDeviceData_plain w c nodeName =
     (let url = baseURL c @ ''/api/dcim/devices/?name='' @ nodeName in
      case NewRequest w ''GET'' url of
        Inl e \<Rightarrow> Inl (CreateRequestError e)
      | Inr req \<Rightarrow>
          (let req = Header_Set req ''Authorization'' (''Token '' @ authToken c);
               req = Header_Set req ''Content-Type'' ''application/json''
           in case http_Do w req of
                Inl e \<Rightarrow> Inl (ContactError e)
              | Inr resp \<Rightarrow>
                  if StatusCode resp \<noteq> 200 then Inl (StatusError (StatusCode resp))
                  else (case json_Decode w (Body resp) of
                      Inl e \<Rightarrow> Inl (ParseError e)
                    | Inr dr \<Rightarrow>
                        (case Results dr of
                           [] \<Rightarrow> Inl (NoDeviceError nodeName)
                         | d # _ \<Rightarrow>
                             (let siteName = name (Site d);
                                  siteName = (if siteName = [] then display (Site d)
                                              else siteName);
                                  rackName = name (Rack d);
                                  rackName = (if rackName = [] then display (Rack d)
                                              else rackName)
                              in Inr \<lparr>SiteName = siteName, RackName = rackName\<rparr>)))))"

section \<open>Reconciler\<close>

definition zoneKey :: string where
  "zoneKey = ''topology.kubernetes.io/zone''"

definition rackKey :: string where
  "rackKey = ''topology.kubernetes.io/rack''"

text \<open>Reading a Go map: the zero value \<^verbatim>\<open>""\<close> for a missing key, also on the nil map.\<close>

definition index :: "labels \<Rightarrow> string \<Rightarrow> string" where
  "index m k = (case m k of None \<Rightarrow> [] | Some v \<Rightarrow> v)"

definition labels_of :: "Node \<Rightarrow> labels" where
  "labels_of node = (case Labels node of None \<Rightarrow> Map.empty | Some m \<Rightarrow> m)"

text \<open>\<^verbatim>\<open>hasAllLabels\<close> of \<^verbatim>\<open>src/main.go\<close>, with the comma-ok reads.\<close>

definition hasAllLabels :: "Node \<Rightarrow> bool" where
  "hasAllLabels node =
     (case Labels node of
        None \<Rightarrow> False
      | Some m \<Rightarrow>
          (let zone = index m zoneKey; hasZone = (m zoneKey \<noteq> None);
               rack = index m rackKey; hasRack = (m rackKey \<noteq> None)
           in hasZone \<and> hasRack \<and> zone \<noteq> [] \<and> rack \<noteq> []))"

text \<open>\<^verbatim>\<open>client.IgnoreNotFound\<close>.\<close>

definition IgnoreNotFound :: "error \<Rightarrow> error option" where
  "IgnoreNotFound e = (if e = NotFound then None else Some e)"

text \<open>
  Step 3 of \<^verbatim>\<open>Reconcile\<close> in \<^verbatim>\<open>src/main.go\<close> (lines 151 to 165): the label map and
  the flag \<^verbatim>\<open>updated\<close> after the two guarded assignments.
\<close>

definition update_labels :: "labels \<Rightarrow> NautobotDeviceData \<Rightarrow> labels \<times> bool" where
  "update_labels m deviceData =
     (let (m, updated) =
            (if SiteName deviceData \<noteq> [] \<and> index m zoneKey \<noteq> SiteName deviceData
             then (m(zoneKey \<mapsto> SiteName deviceData), True) else (m, False));
          (m, updated) =
            (if RackName deviceData \<noteq> [] \<and> index m rackKey \<noteq> RackName deviceData
             then (m(rackKey \<mapsto> RackName deviceData), True) else (m, updated))
      in (m, updated))"

text \<open>The same step in \<^verbatim>\<open>src/unnamed/part_001\<close> (lines 136 to 150).\<close>

definition update_labels_plain :: "labels \<Rightarrow> NautobotDeviceData \<Rightarrow> labels \<times> bool" where
  "update_labels_plain m deviceData =
     (let (m, updated) =
            (if index m zoneKey \<noteq> SiteName deviceData
             then (m(zoneKey \<mapsto> SiteName deviceData), True) else (m, False));
          (m, updated) =
            (if index m rackKey \<noteq> RackName deviceData
             then (m(rackKey \<mapsto> RackName deviceData), True) else (m, updated))
      in (m, updated))"

text \<open>\<^verbatim>\<open>Reconcile\<close> of \<^verbatim>\<open>src/main.go\<close>.\<close>

definition Reconcile :: "world \<Rightarrow> NautobotClient \<Rightarrow> Request \<Rightarrow> run" where
  "Reconcile w c req =
     (let log = [LogInfo ''Reconciling Node''] in
      case store_Get w req of
        Inl e \<Rightarrow>
          \<lparr>result = \<lparr>Requeue = False, RequeueAfter = 0\<rparr>, err = IgnoreNotFound e,
           events = log\<rparr>
      | Inr node \<Rightarrow>
          if hasAllLabels node then
            \<lparr>result = \<lparr>Requeue = False, RequeueAfter = 12 * Hour\<rparr>, err = None,
             events = log @ [LogInfo ''Node already has all required labels'']\<rparr>
          else
            (let log = log @ [InventoryLookup (Name node)] in
             case GetDeviceData w c (Name node) of
               Inl e \<Rightarrow>
                 \<lparr>result = \<lparr>Requeue = False, RequeueAfter = 5 * Minute\<rparr>, err = None,
                  events = log @ [LogError e ''Failed to get device data from Nautobot'']\<rparr>
             | Inr deviceData \<Rightarrow>
                 (let (m, updated) = update_labels (labels_of node) deviceData;
                      node = node\<lparr>Labels := Some m\<rparr>
                  in if updated then
                       (let log = log @ [LogInfo ''Updating node labels'', StoreUpdate node] in
                        case store_Update w node of
                          Some e \<Rightarrow>
                            \<lparr>result = \<lparr>Requeue = False, RequeueAfter = 1 * Minute\<rparr>,
                             err = Some e,
                             events = log @ [LogError e ''Failed to update node labels'']\<rparr>
                        | None \<Rightarrow>
                            \<lparr>result = \<lparr>Requeue = False, RequeueAfter = 1 * Hour\<rparr>,
                             err = None, events = log\<rparr>)
                     else
                       \<lparr>result = \<lparr>Requeue = False, RequeueAfter = 6 * Hour\<rparr>, err = None,
                        events = log @ [LogInfo ''No label updates needed'']\<rparr>)))"

text \<open>\<^verbatim>\<open>Reconcile\<close> of \<^verbatim>\<open>src/unnamed/part_001\<close>.\<close>

definition Reconcile_plain :: "world \<Rightarrow> NautobotClient \<Rightarrow> Request \<Rightarrow> run" where
  "Reconcile_plain w c req =
     (case store_Get w req of
        Inl e \<Rightarrow>
          \<lparr>result = \<lparr>Requeue = False, RequeueAfter = 0\<rparr>, err = IgnoreNotFound e,
           events = []\<rparr>
      | Inr node \<Rightarrow>
          (let log = [LogInfo ''Reconciling Node'', InventoryLookup (Name node)] in
           case GetDeviceData_plain w c (Name node) of
             Inl e \<Rightarrow>
               \<lparr>result = \<lparr>Requeue = False, RequeueAfter = 0\<rparr>, err = Some e,
                events = log @ [LogError e ''Failed to get device data from Nautobot'']\<rparr>
           | Inr deviceData \<Rightarrow>
               (let (m, updated) = update_labels_plain (labels_of node) deviceData;
                    node = node\<lparr>Labels := Some m\<rparr>
                in if updated then
                     (let log = log @ [LogInfo ''Updating node labels'', StoreUpdate node] in
                      case store_Update w node of
                        Some e \<Rightarrow>
                          \<lparr>result = \<lparr>Requeue = False, RequeueAfter = 0\<rparr>,
                           err = Some (UpdateLabelsError e), events = log\<rparr>
                      | None \<Rightarrow>
                          \<lparr>result = \<lparr>Requeue = False, RequeueAfter = 0\<rparr>, err = None,
                           events = log\<rparr>)
                   else
                     \<lparr>result = \<lparr>Requeue = False, RequeueAfter = 0\<rparr>, err = None,
                      events = log\<rparr>)))"

section \<open>Observations on a run\<close>

text \<open>The node names looked up in the inventory and the nodes submitted to the store.\<close>

fun lookups :: "event list \<Rightarrow> string list" where
  "lookups [] = []"
| "lookups (InventoryLookup n # es) = n # lookups es"
| "lookups (_ # es) = lookups es"

fun writes :: "event list \<Rightarrow> Node list" where
  "writes [] = []"
| "writes (StoreUpdate n # es) = n # writes es"
| "writes (_ # es) = writes es"

fun logged_errors :: "event list \<Rightarrow> error list" where
  "logged_errors [] = []"
| "logged_errors (LogError e _ # es) = e # logged_errors es"
| "logged_errors (_ # es) = logged_errors es"

text \<open>
  The label set the store holds for the node after a run that started from \<open>node\<close>: a
  submitted node replaces the stored one when the store accepts it.
\<close>

fun persisted :: "world \<Rightarrow> labels \<Rightarrow> Node list \<Rightarrow> labels" where
  "persisted w m [] = m"
| "persisted w m (n # ns) =
     persisted w (if store_Update w n = None then labels_of n else m) ns"

text \<open>The request \<^verbatim>\<open>GetDeviceData\<close> of \<^verbatim>\<open>src/main.go\<close> hands to the HTTP client.\<close>

definition sent_request :: "NautobotClient \<Rightarrow> string \<Rightarrow> http_request" where
  "sent_request c nodeName =
     \<lparr>Method = ''GET'',
      URL = baseURL c @ ''/api/dcim/devices/?name='' @ hostname nodeName,
      Header = [(''Authorization'', ''Token '' @ authToken c),
                (''Content-Type'', ''application/json'')]\<rparr>"

section \<open>Concrete inputs\<close>

text \<open>
  A cluster holding one node, a store that answers every update with \<open>upd\<close>, and an
  inventory that answers every request with the given status and decoded body.
\<close>

definition one_node_world :: "Node \<Rightarrow> error option \<Rightarrow> int \<Rightarrow> deviceResponse \<Rightarrow> world" where
  "one_node_world node upd status dr =
     \<lparr>store_Get = (\<lambda>req. if ReqName req = Name node then Inr node else Inl NotFound),
      store_Update = (\<lambda>n. upd),
      url_error = (\<lambda>u. None),
      http_Do = (\<lambda>rq. Inr \<lparr>StatusCode = status, Body = []\<rparr>),
      json_Decode = (\<lambda>b. Inr dr)\<rparr>"

definition answer :: "string \<Rightarrow> string \<Rightarrow> deviceResponse" where
  "answer site rack =
     \<lparr>Results = [\<lparr>Site = \<lparr>display = [], name = site\<rparr>,
                  Rack = \<lparr>display = [], name = rack\<rparr>\<rparr>]\<rparr>"

definition the_client :: NautobotClient where
  "the_client = \<lparr>baseURL = ''http://nautobot.local'', authToken = ''placeholder-token''\<rparr>"

definition request_for :: "string \<Rightarrow> Request" where
  "request_for n = \<lparr>Namespace = [], ReqName = n\<rparr>"

definition bare_node :: Node where
  "bare_node = \<lparr>Name = ''node2'', Labels = None\<rparr>"

definition labelled_node :: "string \<Rightarrow> string \<Rightarrow> Node" where
  "labelled_node z k =
     \<lparr>Name = ''node2'',
      Labels = Some [''team'' \<mapsto> ''infra'', zoneKey \<mapsto> z, rackKey \<mapsto> k]\<rparr>"

definition zone_only_node :: Node where
  "zone_only_node =
     \<lparr>Name = ''node2'', Labels = Some [''team'' \<mapsto> ''infra'', zoneKey \<mapsto> ''dc1'']\<rparr>"

section \<open>Facts about the model\<close>

lemma strings_Index_char:
  "strings_Index s [c] =
     (if c \<in> set s then int (length (takeWhile (\<lambda>x. x \<noteq> c) s)) else -1)"
  by (induction s) (auto simp: Let_def)

lemma nat_one_plus_int: "nat (1 + int n) = Suc n"
  by simp

lemma take_length_takeWhile: "take (length (takeWhile P xs)) xs = takeWhile P xs"
  by (induction xs) auto

lemma hostname_char:
  "hostname s =
     (if CHR ''.'' \<in> set s \<and> hd s \<noteq> CHR ''.''
      then takeWhile (\<lambda>x. x \<noteq> CHR ''.'') s else s)"
proof (cases s)
  case Nil
  then show ?thesis by (simp add: hostname_def)
next
  case (Cons a list)
  then show ?thesis
    by (auto simp: hostname_def strings_Index_char Let_def nat_one_plus_int
        take_length_takeWhile)
qed

lemma hasAllLabels_iff:
  "hasAllLabels node \<longleftrightarrow>
     index (labels_of node) zoneKey \<noteq> [] \<and> index (labels_of node) rackKey \<noteq> []"
  by (auto simp: hasAllLabels_def labels_of_def index_def Let_def split: option.splits)

lemma keys_distinct: "zoneKey \<noteq> rackKey"
  by (simp add: zoneKey_def rackKey_def)

lemma update_labels_frame:
  "k \<noteq> zoneKey \<Longrightarrow> k \<noteq> rackKey \<Longrightarrow> fst (update_labels m d) k = m k"
  by (simp add: update_labels_def Let_def split: prod.splits if_splits)

lemma update_labels_keeps:
  assumes "(key, field) = (zoneKey, SiteName) \<or> (key, field) = (rackKey, RackName)"
    and "m key = Some v" and "field d = []"
  shows "fst (update_labels m d) key = Some v"
  using assms keys_distinct
  by (auto simp: update_labels_def Let_def split: prod.splits if_splits)

lemma update_labels_plain_erases:
  assumes "(key, field) = (zoneKey, SiteName) \<or> (key, field) = (rackKey, RackName)"
    and "m key = Some v" and "v \<noteq> []" and "field d = []"
  shows "fst (update_labels_plain m d) key = Some []"
  using assms keys_distinct
  by (auto simp: update_labels_plain_def index_def Let_def split: prod.splits if_splits)

lemma update_labels_agree:
  assumes "SiteName d = [] \<longrightarrow> index m zoneKey = []"
    and "RackName d = [] \<longrightarrow> index m rackKey = []"
  shows "update_labels m d = update_labels_plain m d"
  using assms keys_distinct
  by (auto simp: update_labels_def update_labels_plain_def index_def Let_def)

lemma update_labels_at:
  "fst (update_labels m d) k =
     (if k = rackKey \<and> RackName d \<noteq> [] \<and> index m rackKey \<noteq> RackName d
      then Some (RackName d)
      else if k = zoneKey \<and> SiteName d \<noteq> [] \<and> index m zoneKey \<noteq> SiteName d
      then Some (SiteName d) else m k)"
  using keys_distinct by (auto simp: update_labels_def index_def Let_def)

lemma update_labels_plain_at:
  "fst (update_labels_plain m d) k =
     (if k = rackKey \<and> index m rackKey \<noteq> RackName d then Some (RackName d)
      else if k = zoneKey \<and> index m zoneKey \<noteq> SiteName d then Some (SiteName d)
      else m k)"
  using keys_distinct by (auto simp: update_labels_plain_def index_def Let_def)

lemma update_labels_plain_updated:
  "snd (update_labels_plain m d) \<longleftrightarrow>
     index m zoneKey \<noteq> SiteName d \<or> index m rackKey \<noteq> RackName d"
  by (auto simp: update_labels_plain_def Let_def)

lemma index_Some: "m k = Some v \<Longrightarrow> index m k = v"
  by (simp add: index_def)

lemma update_labels_plain_changes:
  assumes "snd (update_labels_plain m d)"
  shows "fst (update_labels_plain m d) \<noteq> m"
proof
  assume eq: "fst (update_labels_plain m d) = m"
  have "fst (update_labels_plain m d) zoneKey = m zoneKey"
    and "fst (update_labels_plain m d) rackKey = m rackKey"
    using eq by simp_all
  then have "index m zoneKey = SiteName d" and "index m rackKey = RackName d"
    using keys_distinct
    by (auto simp: update_labels_plain_at dest: index_Some [OF sym] split: if_splits)
  then show False
    using assms by (simp add: update_labels_plain_updated)
qed

lemma update_labels_disagree:
  assumes "SiteName d = [] \<and> index m zoneKey \<noteq> [] \<or> RackName d = [] \<and> index m rackKey \<noteq> []"
  shows "snd (update_labels_plain m d)"
    and "fst (update_labels m d) \<noteq> fst (update_labels_plain m d)"
    and "m \<noteq> fst (update_labels_plain m d)"
proof -
  show u: "snd (update_labels_plain m d)"
    using assms by (auto simp: update_labels_plain_updated)
  have "\<exists>k. fst (update_labels m d) k = m k
      \<and> fst (update_labels_plain m d) k = Some [] \<and> index m k \<noteq> []"
  proof (cases "SiteName d = [] \<and> index m zoneKey \<noteq> []")
    case True
    then have "fst (update_labels m d) zoneKey = m zoneKey
        \<and> fst (update_labels_plain m d) zoneKey = Some [] \<and> index m zoneKey \<noteq> []"
      using keys_distinct by (simp add: update_labels_at update_labels_plain_at)
    then show ?thesis ..
  next
    case False
    then have "RackName d = [] \<and> index m rackKey \<noteq> []"
      using assms by blast
    then have "fst (update_labels m d) rackKey = m rackKey
        \<and> fst (update_labels_plain m d) rackKey = Some [] \<and> index m rackKey \<noteq> []"
      using keys_distinct by (simp add: update_labels_at update_labels_plain_at)
    then show ?thesis ..
  qed
  then obtain k where k: "fst (update_labels m d) k = m k"
      "fst (update_labels_plain m d) k = Some []" "index m k \<noteq> []"
    by blast
  then have "m k \<noteq> Some []"
    by (auto dest: index_Some)
  then show "fst (update_labels m d) \<noteq> fst (update_labels_plain m d)"
    using k by metis
  show "m \<noteq> fst (update_labels_plain m d)"
    using update_labels_plain_changes [OF u] by simp
qed

lemma labels_of_submitted: "labels_of (node\<lparr>Labels := Some m\<rparr>) = m"
  by (simp add: labels_of_def)

lemma submitted_eq:
  "node\<lparr>Labels := Some a\<rparr> = node\<lparr>Labels := Some b\<rparr> \<longleftrightarrow> a = b"
proof
  assume "node\<lparr>Labels := Some a\<rparr> = node\<lparr>Labels := Some b\<rparr>"
  then have "Labels (node\<lparr>Labels := Some a\<rparr>) = Labels (node\<lparr>Labels := Some b\<rparr>)"
    by (rule arg_cong)
  then show "a = b" by simp
qed simp

lemma Reconcile_writes:
  "store_Get w req = Inr node \<Longrightarrow>
   writes (events (Reconcile w c req)) =
     (if hasAllLabels node then []
      else case GetDeviceData w c (Name node) of
             Inl e \<Rightarrow> []
           | Inr d \<Rightarrow>
               if snd (update_labels (labels_of node) d)
               then [node\<lparr>Labels := Some (fst (update_labels (labels_of node) d))\<rparr>]
               else [])"
  by (simp add: Reconcile_def Let_def split: sum.splits prod.splits option.splits)

lemma Reconcile_writes_no_node:
  "store_Get w req = Inl e \<Longrightarrow> writes (events (Reconcile w c req)) = []"
  by (simp add: Reconcile_def)

lemma Reconcile_plain_writes:
  "store_Get w req = Inr node \<Longrightarrow>
   writes (events (Reconcile_plain w c req)) =
     (case GetDeviceData_plain w c (Name node) of
        Inl e \<Rightarrow> []
      | Inr d \<Rightarrow>
          if snd (update_labels_plain (labels_of node) d)
          then [node\<lparr>Labels := Some (fst (update_labels_plain (labels_of node) d))\<rparr>]
          else [])"
  by (simp add: Reconcile_plain_def Let_def split: sum.splits prod.splits option.splits)

lemma GetDeviceData_answered:
  assumes "url_error w (URL (sent_request c n)) = None"
    and "http_Do w (sent_request c n) = Inr resp"
  shows "GetDeviceData w c n =
     (if StatusCode resp \<noteq> 200 then Inl (StatusError (StatusCode resp))
      else case json_Decode w (Body resp) of
             Inl e \<Rightarrow> Inl (ParseError e)
           | Inr dr \<Rightarrow>
               (case Results dr of
                  [] \<Rightarrow> Inl (NoDeviceError n)
                | d # _ \<Rightarrow>
                    Inr \<lparr>SiteName = (if name (Site d) = [] then display (Site d)
                                      else name (Site d)),
                         RackName = (if name (Rack d) = [] then display (Rack d)
                                      else name (Rack d))\<rparr>))"
proof -
  have "NewRequest w ''GET'' (URL (sent_request c n))
      = Inr \<lparr>Method = ''GET'', URL = URL (sent_request c n), Header = []\<rparr>"
    using assms(1) by (simp add: NewRequest_def)
  moreover have "Header_Set (Header_Set
        \<lparr>Method = ''GET'', URL = URL (sent_request c n), Header = []\<rparr>
        ''Authorization'' (''Token '' @ authToken c)) ''Content-Type'' ''application/json''
      = sent_request c n"
    by (simp add: Header_Set_def sent_request_def)
  moreover have "baseURL c @ ''/api/dcim/devices/?name='' @ hostname n
      = URL (sent_request c n)"
    by (simp add: sent_request_def)
  ultimately show ?thesis
    unfolding GetDeviceData_def Let_def
    by (simp add: assms(2))
qed

lemma one_node_world_simps:
  "store_Get (one_node_world node upd status dr) req
     = (if ReqName req = Name node then Inr node else Inl NotFound)"
  "store_Update (one_node_world node upd status dr) n = upd"
  "GetDeviceData (one_node_world node upd 200 (answer site rack)) c nm
     = Inr \<lparr>SiteName = site, RackName = rack\<rparr>"
  "GetDeviceData_plain (one_node_world node upd 200 (answer site rack)) c nm
     = Inr \<lparr>SiteName = site, RackName = rack\<rparr>"
  "status \<noteq> 200 \<Longrightarrow>
     GetDeviceData (one_node_world node upd status dr) c nm = Inl (StatusError status)"
  by (simp_all add: one_node_world_def GetDeviceData_def GetDeviceData_plain_def
      NewRequest_def Header_Set_def answer_def)

section \<open>No erasure\<close>

text \<open>
  Claim C1, as amended. In \<^verbatim>\<open>Reconcile\<close> of \<^verbatim>\<open>src/main.go\<close>, when the node holds a
  non-empty value under the zone key and the device record has an empty \<^verbatim>\<open>SiteName\<close>
  (or the same for the rack key and \<^verbatim>\<open>RackName\<close>), the label update leaves that entry
  as it is, and every node the invocation submits to the store still carries the value.
\<close>

theorem no_erasure:
  assumes "(key, field) = (zoneKey, SiteName) \<or> (key, field) = (rackKey, RackName)"
    and "labels_of node key = Some v" and "v \<noteq> []" and "field d = []"
    and "store_Get w req = Inr node" and "GetDeviceData w c (Name node) = Inr d"
  shows "fst (update_labels (labels_of node) d) key = Some v
    \<and> (\<forall>n \<in> set (writes (events (Reconcile w c req))). labels_of n key = Some v)"
proof -
  have keep: "fst (update_labels (labels_of node) d) key = Some v"
    using assms(1,2,4) by (rule update_labels_keeps)
  have "labels_of n key = Some v"
    if "n \<in> set (writes (events (Reconcile w c req)))" for n
  proof -
    have "n = node\<lparr>Labels := Some (fst (update_labels (labels_of node) d))\<rparr>"
      using that assms(5,6) by (simp add: Reconcile_writes split: if_splits)
    then show ?thesis
      using keep by (simp add: labels_of_def)
  qed
  then show ?thesis
    using keep by blast
qed

theorem no_erasure_witness:
  "labels_of zone_only_node zoneKey = Some ''dc1''
   \<and> SiteName \<lparr>SiteName = [], RackName = ''r12''\<rparr> = []
   \<and> store_Get (one_node_world zone_only_node None 200 (answer [] ''r12''))
        (request_for ''node2'') = Inr zone_only_node
   \<and> GetDeviceData (one_node_world zone_only_node None 200 (answer [] ''r12'')) the_client
        (Name zone_only_node) = Inr \<lparr>SiteName = [], RackName = ''r12''\<rparr>
   \<and> writes (events (Reconcile (one_node_world zone_only_node None 200 (answer [] ''r12''))
        the_client (request_for ''node2'')))
      = [zone_only_node\<lparr>Labels := Some [''team'' \<mapsto> ''infra'', zoneKey \<mapsto> ''dc1'',
           rackKey \<mapsto> ''r12'']\<rparr>]
   \<and> labels_of (zone_only_node\<lparr>Labels := Some [''team'' \<mapsto> ''infra'', zoneKey \<mapsto> ''dc1'',
           rackKey \<mapsto> ''r12'']\<rparr>) zoneKey = Some ''dc1''"
proof -
  let ?w = "one_node_world zone_only_node None 200 (answer [] ''r12'')"
  let ?d = "\<lparr>SiteName = [], RackName = ''r12''\<rparr>"
  let ?n = "zone_only_node\<lparr>Labels := Some [''team'' \<mapsto> ''infra'', zoneKey \<mapsto> ''dc1'',
        rackKey \<mapsto> ''r12'']\<rparr>"
  have k2: "''team'' \<noteq> rackKey" by (simp add: rackKey_def)
  have z: "labels_of zone_only_node zoneKey = Some ''dc1''"
    by (simp add: labels_of_def zone_only_node_def)
  have g: "store_Get ?w (request_for ''node2'') = Inr zone_only_node"
    by (simp add: one_node_world_simps request_for_def zone_only_node_def)
  have d: "GetDeviceData ?w the_client (Name zone_only_node) = Inr ?d"
    by (simp add: one_node_world_simps)
  have nh: "\<not> hasAllLabels zone_only_node"
    using k2 by (simp add: hasAllLabels_def zone_only_node_def keys_distinct[symmetric])
  have ul: "update_labels (labels_of zone_only_node) ?d
      = ([''team'' \<mapsto> ''infra'', zoneKey \<mapsto> ''dc1'', rackKey \<mapsto> ''r12''], True)"
    using k2 by (simp add: update_labels_def labels_of_def zone_only_node_def index_def
        keys_distinct[symmetric])
  have wr: "writes (events (Reconcile ?w the_client (request_for ''node2''))) = [?n]"
    by (simp add: Reconcile_writes [OF g] nh d ul)
  have s: "SiteName ?d = []" by simp
  have "''dc1'' \<noteq> ([]::string)" by simp
  from no_erasure [OF disjI1 [OF refl] z this s g d] z s g d wr
  show ?thesis by simp
qed

text \<open>
  Claim C1 as the specification words it speaks of any reconcile invocation.
  \<^verbatim>\<open>Reconcile\<close> of \<^verbatim>\<open>src/unnamed/part_001\<close> has no guard on the empty value: on a
  node labelled zone \<open>dc1\<close> and a record with an empty \<^verbatim>\<open>SiteName\<close> it submits the
  node with the zone label set to the empty string.
\<close>

theorem no_erasure_plain_counterexample:
  "labels_of zone_only_node zoneKey = Some ''dc1''
   \<and> store_Get (one_node_world zone_only_node None 200 (answer [] ''r12''))
        (request_for ''node2'') = Inr zone_only_node
   \<and> GetDeviceData_plain (one_node_world zone_only_node None 200 (answer [] ''r12''))
        the_client (Name zone_only_node) = Inr \<lparr>SiteName = [], RackName = ''r12''\<rparr>
   \<and> map (\<lambda>n. labels_of n zoneKey)
        (writes (events (Reconcile_plain
          (one_node_world zone_only_node None 200 (answer [] ''r12''))
          the_client (request_for ''node2'')))) = [Some []]"
proof -
  let ?w = "one_node_world zone_only_node None 200 (answer [] ''r12'')"
  let ?d = "\<lparr>SiteName = [], RackName = ''r12''\<rparr>"
  have k2: "''team'' \<noteq> rackKey" by (simp add: rackKey_def)
  have z: "labels_of zone_only_node zoneKey = Some ''dc1''"
    by (simp add: labels_of_def zone_only_node_def)
  have g: "store_Get ?w (request_for ''node2'') = Inr zone_only_node"
    by (simp add: one_node_world_simps request_for_def zone_only_node_def)
  have d: "GetDeviceData_plain ?w the_client (Name zone_only_node) = Inr ?d"
    by (simp add: one_node_world_simps)
  have ul: "update_labels_plain (labels_of zone_only_node) ?d
      = ([''team'' \<mapsto> ''infra'', zoneKey \<mapsto> [], rackKey \<mapsto> ''r12''], True)"
    using k2 by (simp add: update_labels_plain_def labels_of_def zone_only_node_def index_def
        keys_distinct[symmetric])
  have wr: "writes (events (Reconcile_plain ?w the_client (request_for ''node2'')))
      = [zone_only_node\<lparr>Labels := Some [''team'' \<mapsto> ''infra'', zoneKey \<mapsto> [],
           rackKey \<mapsto> ''r12'']\<rparr>]"
    by (simp add: Reconcile_plain_writes [OF g] d ul)
  have "map (\<lambda>n. labels_of n zoneKey)
      (writes (events (Reconcile_plain ?w the_client (request_for ''node2'')))) = [Some []]"
    unfolding wr by (simp add: labels_of_def keys_distinct)
  then show ?thesis
    using z g d by simp
qed

section \<open>The end-to-end scenario\<close>

text \<open>
  Claim C2, as amended. For a node with no labels and a lookup that returns site \<open>dc1\<close>
  and rack \<open>r12\<close>, the invocation submits exactly one write, the node with both managed
  labels set; when the store accepts that write, it returns no error and a requeue after
  one hour, and the store then holds exactly the two labels.
\<close>

theorem end_to_end:
  assumes "store_Get w req = Inr node" and "labels_of node = Map.empty"
    and "GetDeviceData w c (Name node) = Inr \<lparr>SiteName = ''dc1'', RackName = ''r12''\<rparr>"
  shows "writes (events (Reconcile w c req))
      = [node\<lparr>Labels := Some [zoneKey \<mapsto> ''dc1'', rackKey \<mapsto> ''r12'']\<rparr>]
    \<and> (store_Update w (node\<lparr>Labels := Some [zoneKey \<mapsto> ''dc1'', rackKey \<mapsto> ''r12'']\<rparr>)
          = None \<longrightarrow>
         result (Reconcile w c req) = \<lparr>Requeue = False, RequeueAfter = 1 * Hour\<rparr>
         \<and> err (Reconcile w c req) = None
         \<and> persisted w (labels_of node) (writes (events (Reconcile w c req)))
             = [zoneKey \<mapsto> ''dc1'', rackKey \<mapsto> ''r12''])"
proof -
  let ?written = "node\<lparr>Labels := Some [zoneKey \<mapsto> ''dc1'', rackKey \<mapsto> ''r12'']\<rparr>"
  have nh: "\<not> hasAllLabels node"
    using assms(2) by (simp add: hasAllLabels_iff index_def)
  have ul: "update_labels Map.empty \<lparr>SiteName = ''dc1'', RackName = ''r12''\<rparr>
      = ([zoneKey \<mapsto> ''dc1'', rackKey \<mapsto> ''r12''], True)"
    by (simp add: update_labels_def index_def)
  have wr: "writes (events (Reconcile w c req)) = [?written]"
    using assms nh ul by (simp add: Reconcile_writes)
  have "store_Update w ?written = None \<Longrightarrow>
      result (Reconcile w c req) = \<lparr>Requeue = False, RequeueAfter = 1 * Hour\<rparr>
      \<and> err (Reconcile w c req) = None"
    using assms nh ul by (simp add: Reconcile_def Let_def)
  then show ?thesis
    using wr by (simp add: labels_of_def)
qed

theorem end_to_end_witness:
  "store_Get (one_node_world bare_node None 200 (answer ''dc1'' ''r12'')) (request_for ''node2'')
      = Inr bare_node
   \<and> labels_of bare_node = Map.empty
   \<and> GetDeviceData (one_node_world bare_node None 200 (answer ''dc1'' ''r12'')) the_client
        (Name bare_node) = Inr \<lparr>SiteName = ''dc1'', RackName = ''r12''\<rparr>
   \<and> store_Update (one_node_world bare_node None 200 (answer ''dc1'' ''r12''))
        (bare_node\<lparr>Labels := Some [zoneKey \<mapsto> ''dc1'', rackKey \<mapsto> ''r12'']\<rparr>) = None
   \<and> writes (events (Reconcile (one_node_world bare_node None 200 (answer ''dc1'' ''r12''))
        the_client (request_for ''node2'')))
      = [bare_node\<lparr>Labels := Some [zoneKey \<mapsto> ''dc1'', rackKey \<mapsto> ''r12'']\<rparr>]
   \<and> result (Reconcile (one_node_world bare_node None 200 (answer ''dc1'' ''r12''))
        the_client (request_for ''node2'')) = \<lparr>Requeue = False, RequeueAfter = 3600000000000\<rparr>"
proof -
  let ?w = "one_node_world bare_node None 200 (answer ''dc1'' ''r12'')"
  have g: "store_Get ?w (request_for ''node2'') = Inr bare_node"
    by (simp add: one_node_world_def request_for_def bare_node_def)
  have l: "labels_of bare_node = Map.empty"
    by (simp add: labels_of_def bare_node_def)
  have d: "GetDeviceData ?w the_client (Name bare_node)
      = Inr \<lparr>SiteName = ''dc1'', RackName = ''r12''\<rparr>"
    by (simp add: GetDeviceData_def one_node_world_def NewRequest_def Header_Set_def
        answer_def)
  have u: "store_Update ?w
      (bare_node\<lparr>Labels := Some [zoneKey \<mapsto> ''dc1'', rackKey \<mapsto> ''r12'']\<rparr>) = None"
    by (simp add: one_node_world_def)
  show ?thesis
    using end_to_end [OF g l d] g l d u
    by (simp add: Hour_def Minute_def Second_def)
qed

text \<open>
  Claim C2 as the specification words it promises the one-hour delay for every such
  invocation. When the store rejects the write (a conflicting update), the invocation
  returns the store's error and a requeue after one minute.
\<close>

theorem end_to_end_counterexample:
  "store_Get (one_node_world bare_node (Some (StoreError ''conflict'')) 200
       (answer ''dc1'' ''r12'')) (request_for ''node2'') = Inr bare_node
   \<and> Labels bare_node = None
   \<and> GetDeviceData (one_node_world bare_node (Some (StoreError ''conflict'')) 200
       (answer ''dc1'' ''r12'')) the_client (Name bare_node)
      = Inr \<lparr>SiteName = ''dc1'', RackName = ''r12''\<rparr>
   \<and> result (Reconcile (one_node_world bare_node (Some (StoreError ''conflict'')) 200
       (answer ''dc1'' ''r12'')) the_client (request_for ''node2''))
      = \<lparr>Requeue = False, RequeueAfter = 1 * Minute\<rparr>
   \<and> err (Reconcile (one_node_world bare_node (Some (StoreError ''conflict'')) 200
       (answer ''dc1'' ''r12'')) the_client (request_for ''node2''))
      = Some (StoreError ''conflict'')
   \<and> 1 * Minute \<noteq> 1 * Hour"
  by (simp add: Reconcile_def GetDeviceData_def one_node_world_def NewRequest_def
      Header_Set_def answer_def request_for_def bare_node_def hasAllLabels_def
      update_labels_def labels_of_def index_def Hour_def Minute_def Second_def
      zoneKey_def rackKey_def the_client_def)

section \<open>The short circuit\<close>

text \<open>
  Claim C3. A node that holds non-empty values under both managed keys is left alone: no
  inventory lookup, no write, no error, and a requeue after twelve hours.
\<close>

theorem short_circuit:
  assumes "store_Get w req = Inr node"
    and "labels_of node zoneKey = Some z" and "z \<noteq> []"
    and "labels_of node rackKey = Some k" and "k \<noteq> []"
  shows "lookups (events (Reconcile w c req)) = []
    \<and> writes (events (Reconcile w c req)) = []
    \<and> result (Reconcile w c req) = \<lparr>Requeue = False, RequeueAfter = 12 * Hour\<rparr>
    \<and> err (Reconcile w c req) = None"
proof -
  have "hasAllLabels node"
    using assms by (simp add: hasAllLabels_iff index_def)
  then show ?thesis
    using assms(1) by (simp add: Reconcile_def)
qed

theorem short_circuit_witness:
  "store_Get (one_node_world (labelled_node ''dc1'' ''r12'') None 200 (answer ''dc2'' ''r7''))
      (request_for ''node2'') = Inr (labelled_node ''dc1'' ''r12'')
   \<and> labels_of (labelled_node ''dc1'' ''r12'') zoneKey = Some ''dc1''
   \<and> labels_of (labelled_node ''dc1'' ''r12'') rackKey = Some ''r12''
   \<and> lookups (events (Reconcile
        (one_node_world (labelled_node ''dc1'' ''r12'') None 200 (answer ''dc2'' ''r7''))
        the_client (request_for ''node2''))) = []
   \<and> writes (events (Reconcile
        (one_node_world (labelled_node ''dc1'' ''r12'') None 200 (answer ''dc2'' ''r7''))
        the_client (request_for ''node2''))) = []
   \<and> result (Reconcile
        (one_node_world (labelled_node ''dc1'' ''r12'') None 200 (answer ''dc2'' ''r7''))
        the_client (request_for ''node2''))
      = \<lparr>Requeue = False, RequeueAfter = 43200000000000\<rparr>"
proof -
  let ?n = "labelled_node ''dc1'' ''r12''"
  let ?w = "one_node_world ?n None 200 (answer ''dc2'' ''r7'')"
  have g: "store_Get ?w (request_for ''node2'') = Inr ?n"
    by (simp add: one_node_world_simps request_for_def labelled_node_def)
  have z: "labels_of ?n zoneKey = Some ''dc1''"
    by (simp add: labels_of_def labelled_node_def keys_distinct)
  have k: "labels_of ?n rackKey = Some ''r12''"
    by (simp add: labels_of_def labelled_node_def)
  show ?thesis
    using short_circuit [OF g z _ k, of the_client] g z k
    by (simp add: Hour_def Minute_def Second_def)
qed

section \<open>A failed lookup\<close>

text \<open>
  Claim C4, as amended. When the inventory lookup fails, the invocation logs the lookup
  error, returns a nil error and a requeue after five minutes, and submits no write.
\<close>

theorem lookup_failure:
  assumes "store_Get w req = Inr node" and "\<not> hasAllLabels node"
    and "GetDeviceData w c (Name node) = Inl e"
  shows "result (Reconcile w c req) = \<lparr>Requeue = False, RequeueAfter = 5 * Minute\<rparr>
    \<and> err (Reconcile w c req) = None
    \<and> logged_errors (events (Reconcile w c req)) = [e]
    \<and> lookups (events (Reconcile w c req)) = [Name node]
    \<and> writes (events (Reconcile w c req)) = []"
  using assms by (simp add: Reconcile_def)

theorem lookup_failure_witness:
  "store_Get (one_node_world bare_node None 503 (answer ''dc1'' ''r12'')) (request_for ''node2'')
      = Inr bare_node
   \<and> \<not> hasAllLabels bare_node
   \<and> GetDeviceData (one_node_world bare_node None 503 (answer ''dc1'' ''r12'')) the_client
        (Name bare_node) = Inl (StatusError 503)
   \<and> result (Reconcile (one_node_world bare_node None 503 (answer ''dc1'' ''r12''))
        the_client (request_for ''node2'')) = \<lparr>Requeue = False, RequeueAfter = 300000000000\<rparr>
   \<and> logged_errors (events (Reconcile (one_node_world bare_node None 503
        (answer ''dc1'' ''r12'')) the_client (request_for ''node2''))) = [StatusError 503]
   \<and> writes (events (Reconcile (one_node_world bare_node None 503 (answer ''dc1'' ''r12''))
        the_client (request_for ''node2''))) = []"
proof -
  let ?w = "one_node_world bare_node None 503 (answer ''dc1'' ''r12'')"
  have g: "store_Get ?w (request_for ''node2'') = Inr bare_node"
    by (simp add: one_node_world_simps request_for_def bare_node_def)
  have h: "\<not> hasAllLabels bare_node"
    by (simp add: hasAllLabels_def bare_node_def)
  have d: "GetDeviceData ?w the_client (Name bare_node) = Inl (StatusError 503)"
    by (simp add: one_node_world_simps)
  show ?thesis
    using lookup_failure [OF g h d] g h d
    by (simp add: Minute_def Second_def)
qed

text \<open>
  Claim C4 as the specification words it has an error present in the outcome. On an
  inventory answering HTTP 503 the error returned by \<^verbatim>\<open>Reconcile\<close> is nil; the failure is
  only logged.
\<close>

theorem lookup_failure_counterexample:
  "store_Get (one_node_world bare_node None 503 (answer ''dc1'' ''r12'')) (request_for ''node2'')
      = Inr bare_node
   \<and> GetDeviceData (one_node_world bare_node None 503 (answer ''dc1'' ''r12'')) the_client
        (Name bare_node) = Inl (StatusError 503)
   \<and> err (Reconcile (one_node_world bare_node None 503 (answer ''dc1'' ''r12''))
        the_client (request_for ''node2'')) = None"
  by (simp add: one_node_world_simps Reconcile_def request_for_def bare_node_def
      hasAllLabels_def)

section \<open>The other labels\<close>

text \<open>
  Claim C5. Every node that an invocation submits to the store is the fetched node, and
  carries under each key other than the two managed ones what the fetched node carried
  there.
\<close>

theorem other_labels_untouched:
  assumes "n \<in> set (writes (events (Reconcile w c req)))"
    and "k \<noteq> zoneKey" and "k \<noteq> rackKey"
  shows "\<exists>node. store_Get w req = Inr node \<and> Name n = Name node
    \<and> labels_of n k = labels_of node k"
proof (cases "store_Get w req")
  case (Inl e)
  then show ?thesis
    using assms(1) by (simp add: Reconcile_writes_no_node)
next
  case (Inr node)
  then obtain d where "n = node\<lparr>Labels := Some (fst (update_labels (labels_of node) d))\<rparr>"
    using assms(1) by (auto simp: Reconcile_writes split: if_splits sum.splits)
  then show ?thesis
    using Inr assms(2,3) by (simp add: labels_of_def update_labels_frame)
qed

theorem other_labels_untouched_witness:
  "store_Get (one_node_world zone_only_node None 200 (answer ''dc1'' ''r12''))
      (request_for ''node2'') = Inr zone_only_node
   \<and> zone_only_node\<lparr>Labels := Some [''team'' \<mapsto> ''infra'', zoneKey \<mapsto> ''dc1'',
        rackKey \<mapsto> ''r12'']\<rparr>
      \<in> set (writes (events (Reconcile
          (one_node_world zone_only_node None 200 (answer ''dc1'' ''r12''))
          the_client (request_for ''node2''))))
   \<and> ''team'' \<noteq> zoneKey \<and> ''team'' \<noteq> rackKey
   \<and> labels_of (zone_only_node\<lparr>Labels := Some [''team'' \<mapsto> ''infra'', zoneKey \<mapsto> ''dc1'',
        rackKey \<mapsto> ''r12'']\<rparr>) ''team'' = labels_of zone_only_node ''team''
   \<and> labels_of zone_only_node ''team'' = Some ''infra''"
proof -
  let ?w = "one_node_world zone_only_node None 200 (answer ''dc1'' ''r12'')"
  let ?n = "zone_only_node\<lparr>Labels := Some [''team'' \<mapsto> ''infra'', zoneKey \<mapsto> ''dc1'',
        rackKey \<mapsto> ''r12'']\<rparr>"
  have g: "store_Get ?w (request_for ''node2'') = Inr zone_only_node"
    by (simp add: one_node_world_simps request_for_def zone_only_node_def)
  have k1: "''team'' \<noteq> zoneKey" by (simp add: zoneKey_def)
  have k2: "''team'' \<noteq> rackKey" by (simp add: rackKey_def)
  have nh: "\<not> hasAllLabels zone_only_node"
    using k2 by (simp add: hasAllLabels_def zone_only_node_def keys_distinct[symmetric])
  have ul: "update_labels (labels_of zone_only_node) \<lparr>SiteName = ''dc1'', RackName = ''r12''\<rparr>
      = ([''team'' \<mapsto> ''infra'', zoneKey \<mapsto> ''dc1'', rackKey \<mapsto> ''r12''], True)"
    using k2 by (simp add: update_labels_def labels_of_def zone_only_node_def index_def
        keys_distinct[symmetric])
  have m: "?n \<in> set (writes (events (Reconcile ?w the_client (request_for ''node2''))))"
    by (simp add: Reconcile_writes [OF g] nh one_node_world_simps ul)
  have v: "labels_of zone_only_node ''team'' = Some ''infra''"
    using k1 by (simp add: labels_of_def zone_only_node_def)
  show ?thesis
    using other_labels_untouched [OF m k1 k2] g m k1 k2 v by simp
qed

section \<open>Idempotence\<close>

text \<open>
  Claim C6. When the node already maps the zone key to the record's non-empty
  \<^verbatim>\<open>SiteName\<close> and the rack key to its non-empty \<^verbatim>\<open>RackName\<close>, the label update
  changes nothing and leaves \<^verbatim>\<open>updated\<close> false, and the invocation submits no write.
\<close>

theorem idempotent:
  assumes "SiteName d \<noteq> []" and "RackName d \<noteq> []"
    and "labels_of node zoneKey = Some (SiteName d)"
    and "labels_of node rackKey = Some (RackName d)"
    and "store_Get w req = Inr node"
  shows "update_labels (labels_of node) d = (labels_of node, False)
    \<and> writes (events (Reconcile w c req)) = []"
proof -
  have "update_labels (labels_of node) d = (labels_of node, False)"
    using assms(3,4) by (simp add: update_labels_def index_def)
  moreover have "hasAllLabels node"
    using assms(1-4) by (simp add: hasAllLabels_iff index_def)
  ultimately show ?thesis
    using assms(5) by (simp add: Reconcile_writes)
qed

theorem idempotent_witness:
  "SiteName \<lparr>SiteName = ''dc1'', RackName = ''r12''\<rparr> \<noteq> []
   \<and> RackName \<lparr>SiteName = ''dc1'', RackName = ''r12''\<rparr> \<noteq> []
   \<and> labels_of (labelled_node ''dc1'' ''r12'') zoneKey = Some ''dc1''
   \<and> labels_of (labelled_node ''dc1'' ''r12'') rackKey = Some ''r12''
   \<and> store_Get (one_node_world (labelled_node ''dc1'' ''r12'') None 200 (answer ''dc1'' ''r12''))
        (request_for ''node2'') = Inr (labelled_node ''dc1'' ''r12'')
   \<and> update_labels (labels_of (labelled_node ''dc1'' ''r12''))
        \<lparr>SiteName = ''dc1'', RackName = ''r12''\<rparr>
      = (labels_of (labelled_node ''dc1'' ''r12''), False)
   \<and> writes (events (Reconcile
        (one_node_world (labelled_node ''dc1'' ''r12'') None 200 (answer ''dc1'' ''r12''))
        the_client (request_for ''node2''))) = []"
proof -
  let ?n = "labelled_node ''dc1'' ''r12''"
  let ?d = "\<lparr>SiteName = ''dc1'', RackName = ''r12''\<rparr>"
  let ?w = "one_node_world ?n None 200 (answer ''dc1'' ''r12'')"
  have g: "store_Get ?w (request_for ''node2'') = Inr ?n"
    by (simp add: one_node_world_simps request_for_def labelled_node_def)
  have z: "labels_of ?n zoneKey = Some (SiteName ?d)"
    by (simp add: labels_of_def labelled_node_def keys_distinct)
  have k: "labels_of ?n rackKey = Some (RackName ?d)"
    by (simp add: labels_of_def labelled_node_def)
  have s: "SiteName ?d \<noteq> []" "RackName ?d \<noteq> []"
    by simp_all
  show ?thesis
    using idempotent [OF s z k g, of the_client] g z k by simp
qed

section \<open>The two variants\<close>

text \<open>
  Claim C7, as amended. Let both variants fetch the same node and get the same record
  from the inventory. They submit the same writes exactly when, for each managed key,
  the current label already reads as the record's field wherever \<^verbatim>\<open>src/main.go\<close> would
  not assign it: on a node that holds non-empty values under both keys, and for an empty
  field. So on a fully labelled node they agree exactly when both labels equal the
  record's fields, and on any other node exactly when each empty field meets an absent or
  empty label. Equal writes give equal label sets in the store, and when the store
  accepts every write the label sets are equal in no other case.
\<close>

theorem variants_agree:
  assumes "store_Get w req = Inr node"
    and "GetDeviceData w c (Name node) = Inr d"
    and "GetDeviceData_plain w c (Name node) = Inr d"
  shows "(writes (events (Reconcile w c req)) = writes (events (Reconcile_plain w c req))
      \<longleftrightarrow> (hasAllLabels node \<or> SiteName d = [] \<longrightarrow>
             index (labels_of node) zoneKey = SiteName d)
          \<and> (hasAllLabels node \<or> RackName d = [] \<longrightarrow>
             index (labels_of node) rackKey = RackName d))
    \<and> (writes (events (Reconcile w c req)) = writes (events (Reconcile_plain w c req))
      \<longrightarrow> persisted w (labels_of node) (writes (events (Reconcile w c req)))
          = persisted w (labels_of node) (writes (events (Reconcile_plain w c req))))
    \<and> ((\<forall>n. store_Update w n = None) \<longrightarrow>
        (persisted w (labels_of node) (writes (events (Reconcile w c req)))
          = persisted w (labels_of node) (writes (events (Reconcile_plain w c req)))
         \<longleftrightarrow> writes (events (Reconcile w c req))
              = writes (events (Reconcile_plain w c req))))"
proof -
  let ?m = "labels_of node"
  let ?A = "writes (events (Reconcile w c req))"
  let ?B = "writes (events (Reconcile_plain w c req))"
  let ?cond = "(hasAllLabels node \<or> SiteName d = [] \<longrightarrow> index ?m zoneKey = SiteName d)
      \<and> (hasAllLabels node \<or> RackName d = [] \<longrightarrow> index ?m rackKey = RackName d)"
  have A: "?A = (if hasAllLabels node then []
      else if snd (update_labels ?m d) then [node\<lparr>Labels := Some (fst (update_labels ?m d))\<rparr>]
      else [])"
    using assms by (simp add: Reconcile_writes)
  have B: "?B = (if snd (update_labels_plain ?m d)
      then [node\<lparr>Labels := Some (fst (update_labels_plain ?m d))\<rparr>] else [])"
    using assms by (simp add: Reconcile_plain_writes)
  have unchanged: "fst (update_labels ?m d) = ?m" if "\<not> snd (update_labels ?m d)"
    using that by (auto simp: update_labels_def Let_def split: if_splits)
  have yes: "?A = ?B" if ?cond
  proof (cases "hasAllLabels node")
    case True
    then show ?thesis
      using that by (simp add: A B update_labels_plain_updated)
  next
    case False
    then have "update_labels ?m d = update_labels_plain ?m d"
      using that by (intro update_labels_agree) auto
    then show ?thesis
      using False by (simp add: A B)
  qed
  have no: "?A \<noteq> ?B \<and> ((\<forall>n. store_Update w n = None) \<longrightarrow>
      persisted w ?m ?A \<noteq> persisted w ?m ?B)" if "\<not> ?cond"
  proof (cases "hasAllLabels node")
    case True
    then have u: "snd (update_labels_plain ?m d)"
      using that by (auto simp: update_labels_plain_updated)
    then show ?thesis
      using True update_labels_plain_changes [OF u] by (auto simp: A B labels_of_submitted)
  next
    case False
    then have "SiteName d = [] \<and> index ?m zoneKey \<noteq> []
        \<or> RackName d = [] \<and> index ?m rackKey \<noteq> []"
      using that by auto
    note dis = update_labels_disagree [OF this]
    show ?thesis
      using False dis unchanged by (auto simp: A B labels_of_submitted submitted_eq)
  qed
  have w_iff: "?A = ?B \<longleftrightarrow> ?cond"
    using yes no by (cases ?cond) simp_all
  have p_iff: "persisted w ?m ?A = persisted w ?m ?B \<longleftrightarrow> ?A = ?B"
    if "\<forall>n. store_Update w n = None"
  proof (cases ?cond)
    case True
    then show ?thesis using yes by simp
  next
    case False
    then show ?thesis using no that by simp
  qed
  have p_eq: "persisted w ?m ?A = persisted w ?m ?B" if "?A = ?B"
    using that by simp
  show ?thesis
    using w_iff p_iff p_eq by (intro conjI impI)
qed

theorem variants_agree_witness:
  "store_Get (one_node_world (labelled_node ''dc1'' ''r12'') None 200 (answer ''dc1'' ''r12''))
      (request_for ''node2'') = Inr (labelled_node ''dc1'' ''r12'')
   \<and> GetDeviceData
        (one_node_world (labelled_node ''dc1'' ''r12'') None 200 (answer ''dc1'' ''r12''))
        the_client (Name (labelled_node ''dc1'' ''r12''))
      = Inr \<lparr>SiteName = ''dc1'', RackName = ''r12''\<rparr>
   \<and> GetDeviceData_plain
        (one_node_world (labelled_node ''dc1'' ''r12'') None 200 (answer ''dc1'' ''r12''))
        the_client (Name (labelled_node ''dc1'' ''r12''))
      = Inr \<lparr>SiteName = ''dc1'', RackName = ''r12''\<rparr>
   \<and> (\<forall>n. store_Update
        (one_node_world (labelled_node ''dc1'' ''r12'') None 200 (answer ''dc1'' ''r12'')) n
      = None)
   \<and> hasAllLabels (labelled_node ''dc1'' ''r12'')
   \<and> index (labels_of (labelled_node ''dc1'' ''r12'')) zoneKey = ''dc1''
   \<and> index (labels_of (labelled_node ''dc1'' ''r12'')) rackKey = ''r12''
   \<and> writes (events (Reconcile
        (one_node_world (labelled_node ''dc1'' ''r12'') None 200 (answer ''dc1'' ''r12''))
        the_client (request_for ''node2'')))
      = writes (events (Reconcile_plain
        (one_node_world (labelled_node ''dc1'' ''r12'') None 200 (answer ''dc1'' ''r12''))
        the_client (request_for ''node2'')))
   \<and> persisted
        (one_node_world (labelled_node ''dc1'' ''r12'') None 200 (answer ''dc1'' ''r12''))
        (labels_of (labelled_node ''dc1'' ''r12''))
        (writes (events (Reconcile
          (one_node_world (labelled_node ''dc1'' ''r12'') None 200 (answer ''dc1'' ''r12''))
          the_client (request_for ''node2''))))
      = persisted
        (one_node_world (labelled_node ''dc1'' ''r12'') None 200 (answer ''dc1'' ''r12''))
        (labels_of (labelled_node ''dc1'' ''r12''))
        (writes (events (Reconcile_plain
          (one_node_world (labelled_node ''dc1'' ''r12'') None 200 (answer ''dc1'' ''r12''))
          the_client (request_for ''node2''))))"
proof -
  let ?n = "labelled_node ''dc1'' ''r12''"
  let ?w = "one_node_world ?n None 200 (answer ''dc1'' ''r12'')"
  let ?d = "\<lparr>SiteName = ''dc1'', RackName = ''r12''\<rparr>"
  have g: "store_Get ?w (request_for ''node2'') = Inr ?n"
    by (simp add: one_node_world_simps request_for_def labelled_node_def)
  have d: "GetDeviceData ?w the_client (Name ?n) = Inr ?d"
    by (simp add: one_node_world_simps)
  have d': "GetDeviceData_plain ?w the_client (Name ?n) = Inr ?d"
    by (simp add: one_node_world_simps)
  have u: "\<forall>n. store_Update ?w n = None"
    by (simp add: one_node_world_simps)
  have h: "hasAllLabels ?n"
    by (simp add: hasAllLabels_def labelled_node_def index_def keys_distinct)
  have z: "index (labels_of ?n) zoneKey = ''dc1''"
    by (simp add: index_def labels_of_def labelled_node_def keys_distinct)
  have k: "index (labels_of ?n) rackKey = ''r12''"
    by (simp add: index_def labels_of_def labelled_node_def)
  show ?thesis
    using variants_agree [OF g d d'] g d d' u h z k by simp
qed

text \<open>
  Claim C7 as the specification words it holds for every label set and every record. On
  a node labelled zone \<open>a\<close> and rack \<open>b\<close> with the inventory returning \<open>dc1\<close> and
  \<open>r12\<close>, \<^verbatim>\<open>Reconcile\<close> of \<^verbatim>\<open>src/main.go\<close> stops at the short circuit and the store
  keeps zone \<open>a\<close>, while \<^verbatim>\<open>Reconcile\<close> of \<^verbatim>\<open>src/unnamed/part_001\<close> writes zone
  \<open>dc1\<close>. On a node labelled only zone \<open>dc1\<close> with the inventory returning an empty
  site and rack \<open>r12\<close>, the first keeps zone \<open>dc1\<close> and the second writes the empty
  string over it.
\<close>

theorem variants_differ_counterexample:
  "store_Get (one_node_world (labelled_node ''a'' ''b'') None 200 (answer ''dc1'' ''r12''))
      (request_for ''node2'') = Inr (labelled_node ''a'' ''b'')
   \<and> GetDeviceData (one_node_world (labelled_node ''a'' ''b'') None 200 (answer ''dc1'' ''r12''))
        the_client (Name (labelled_node ''a'' ''b''))
      = Inr \<lparr>SiteName = ''dc1'', RackName = ''r12''\<rparr>
   \<and> GetDeviceData_plain
        (one_node_world (labelled_node ''a'' ''b'') None 200 (answer ''dc1'' ''r12''))
        the_client (Name (labelled_node ''a'' ''b''))
      = Inr \<lparr>SiteName = ''dc1'', RackName = ''r12''\<rparr>
   \<and> persisted (one_node_world (labelled_node ''a'' ''b'') None 200 (answer ''dc1'' ''r12''))
        (labels_of (labelled_node ''a'' ''b''))
        (writes (events (Reconcile
           (one_node_world (labelled_node ''a'' ''b'') None 200 (answer ''dc1'' ''r12''))
           the_client (request_for ''node2'')))) zoneKey = Some ''a''
   \<and> persisted (one_node_world (labelled_node ''a'' ''b'') None 200 (answer ''dc1'' ''r12''))
        (labels_of (labelled_node ''a'' ''b''))
        (writes (events (Reconcile_plain
           (one_node_world (labelled_node ''a'' ''b'') None 200 (answer ''dc1'' ''r12''))
           the_client (request_for ''node2'')))) zoneKey = Some ''dc1''
   \<and> store_Get (one_node_world zone_only_node None 200 (answer [] ''r12''))
        (request_for ''node2'') = Inr zone_only_node
   \<and> GetDeviceData (one_node_world zone_only_node None 200 (answer [] ''r12''))
        the_client (Name zone_only_node) = Inr \<lparr>SiteName = [], RackName = ''r12''\<rparr>
   \<and> GetDeviceData_plain (one_node_world zone_only_node None 200 (answer [] ''r12''))
        the_client (Name zone_only_node) = Inr \<lparr>SiteName = [], RackName = ''r12''\<rparr>
   \<and> persisted (one_node_world zone_only_node None 200 (answer [] ''r12''))
        (labels_of zone_only_node)
        (writes (events (Reconcile
           (one_node_world zone_only_node None 200 (answer [] ''r12''))
           the_client (request_for ''node2'')))) zoneKey = Some ''dc1''
   \<and> persisted (one_node_world zone_only_node None 200 (answer [] ''r12''))
        (labels_of zone_only_node)
        (writes (events (Reconcile_plain
           (one_node_world zone_only_node None 200 (answer [] ''r12''))
           the_client (request_for ''node2'')))) zoneKey = Some []"
proof -
  let ?n = "labelled_node ''a'' ''b''"
  let ?w = "one_node_world ?n None 200 (answer ''dc1'' ''r12'')"
  let ?d = "\<lparr>SiteName = ''dc1'', RackName = ''r12''\<rparr>"
  have g: "store_Get ?w (request_for ''node2'') = Inr ?n"
    by (simp add: one_node_world_simps request_for_def labelled_node_def)
  have h: "hasAllLabels ?n"
    by (simp add: hasAllLabels_def labelled_node_def index_def keys_distinct)
  have z: "labels_of ?n zoneKey = Some ''a''"
    by (simp add: labels_of_def labelled_node_def keys_distinct)
  have ul: "update_labels_plain (labels_of ?n) ?d
      = ([''team'' \<mapsto> ''infra'', zoneKey \<mapsto> ''dc1'', rackKey \<mapsto> ''r12''], True)"
    by (simp add: update_labels_plain_def labels_of_def labelled_node_def index_def
        keys_distinct)
  have wr: "writes (events (Reconcile ?w the_client (request_for ''node2''))) = []"
    by (simp add: Reconcile_writes [OF g] h)
  have wr': "writes (events (Reconcile_plain ?w the_client (request_for ''node2'')))
      = [?n\<lparr>Labels := Some [''team'' \<mapsto> ''infra'', zoneKey \<mapsto> ''dc1'',
           rackKey \<mapsto> ''r12'']\<rparr>]"
    by (simp add: Reconcile_plain_writes [OF g] one_node_world_simps ul)
  have p: "persisted ?w (labels_of ?n)
      (writes (events (Reconcile ?w the_client (request_for ''node2'')))) zoneKey = Some ''a''"
    unfolding wr using z by simp
  have p': "persisted ?w (labels_of ?n)
      (writes (events (Reconcile_plain ?w the_client (request_for ''node2'')))) zoneKey
      = Some ''dc1''"
    unfolding wr' by (simp add: one_node_world_simps labels_of_submitted keys_distinct)
  let ?v = "one_node_world zone_only_node None 200 (answer [] ''r12'')"
  let ?e = "\<lparr>SiteName = [], RackName = ''r12''\<rparr>"
  have k2: "''team'' \<noteq> rackKey" by (simp add: rackKey_def)
  have g2: "store_Get ?v (request_for ''node2'') = Inr zone_only_node"
    by (simp add: one_node_world_simps request_for_def zone_only_node_def)
  have nh: "\<not> hasAllLabels zone_only_node"
    using k2 by (simp add: hasAllLabels_def zone_only_node_def keys_distinct[symmetric])
  have ul2: "update_labels (labels_of zone_only_node) ?e
      = ([''team'' \<mapsto> ''infra'', zoneKey \<mapsto> ''dc1'', rackKey \<mapsto> ''r12''], True)"
    using k2 by (simp add: update_labels_def labels_of_def zone_only_node_def index_def
        keys_distinct[symmetric])
  have ul2': "update_labels_plain (labels_of zone_only_node) ?e
      = ([''team'' \<mapsto> ''infra'', zoneKey \<mapsto> [], rackKey \<mapsto> ''r12''], True)"
    using k2 by (simp add: update_labels_plain_def labels_of_def zone_only_node_def index_def
        keys_distinct[symmetric])
  have wr2: "writes (events (Reconcile ?v the_client (request_for ''node2'')))
      = [zone_only_node\<lparr>Labels := Some [''team'' \<mapsto> ''infra'', zoneKey \<mapsto> ''dc1'',
           rackKey \<mapsto> ''r12'']\<rparr>]"
    by (simp add: Reconcile_writes [OF g2] nh one_node_world_simps ul2)
  have wr2': "writes (events (Reconcile_plain ?v the_client (request_for ''node2'')))
      = [zone_only_node\<lparr>Labels := Some [''team'' \<mapsto> ''infra'', zoneKey \<mapsto> [],
           rackKey \<mapsto> ''r12'']\<rparr>]"
    by (simp add: Reconcile_plain_writes [OF g2] one_node_world_simps ul2')
  have q: "persisted ?v (labels_of zone_only_node)
      (writes (events (Reconcile ?v the_client (request_for ''node2'')))) zoneKey
      = Some ''dc1''"
    unfolding wr2 by (simp add: one_node_world_simps labels_of_submitted keys_distinct)
  have q': "persisted ?v (labels_of zone_only_node)
      (writes (events (Reconcile_plain ?v the_client (request_for ''node2'')))) zoneKey
      = Some []"
    unfolding wr2' by (simp add: one_node_world_simps labels_of_submitted keys_distinct)
  show ?thesis
    using g p p' g2 q q' by (simp add: one_node_world_simps)
qed

section \<open>The lookup key\<close>

text \<open>
  Claim C8, as amended. The key is the part of the identity before its first dot when the
  identity holds a dot and does not start with one; otherwise (no dot, or a dot in front)
  it is the whole identity. So \<open>node1.cluster.local\<close> gives \<open>node1\<close> and \<open>node2\<close>
  gives \<open>node2\<close>.
\<close>

theorem hostname_before_first_dot:
  "hostname s =
     (if CHR ''.'' \<in> set s \<and> \<not> prefix ''.'' s
      then takeWhile (\<lambda>x. x \<noteq> CHR ''.'') s else s)
   \<and> hostname ''node1.cluster.local'' = ''node1''
   \<and> hostname ''node2'' = ''node2''"
proof -
  have "prefix ''.'' s \<longleftrightarrow> s \<noteq> [] \<and> hd s = CHR ''.''"
    by (cases s) auto
  moreover have "s = [] \<Longrightarrow> CHR ''.'' \<notin> set s"
    by simp
  ultimately have "hostname s =
     (if CHR ''.'' \<in> set s \<and> \<not> prefix ''.'' s
      then takeWhile (\<lambda>x. x \<noteq> CHR ''.'') s else s)"
    unfolding hostname_char by auto
  moreover have "hostname ''node1.cluster.local'' = ''node1''"
    by (simp add: hostname_char)
  moreover have "hostname ''node2'' = ''node2''"
    by (simp add: hostname_char)
  ultimately show ?thesis by blast
qed

text \<open>
  Claim C8 as the specification words it fails for an identity that starts with a dot:
  \<open>.cluster.local\<close> holds a dot, the substring before its first dot is empty, and the
  key is the whole identity.
\<close>

theorem hostname_leading_dot_counterexample:
  "CHR ''.'' \<in> set ''.cluster.local''
   \<and> takeWhile (\<lambda>x. x \<noteq> CHR ''.'') ''.cluster.local'' = []
   \<and> hostname ''.cluster.local'' = ''.cluster.local''
   \<and> hostname ''.cluster.local'' \<noteq> takeWhile (\<lambda>x. x \<noteq> CHR ''.'') ''.cluster.local''"
  by (simp add: hostname_char)

section \<open>The status check\<close>

text \<open>
  Claim C9, as amended. Once the HTTP client has answered, the lookup fails with the
  status error carrying the response's code exactly when that code is not 200; the body
  and the decoder play no part in it.
\<close>

theorem status_error_iff_not_200:
  assumes "url_error w (URL (sent_request c n)) = None"
    and "http_Do w (sent_request c n) = Inr resp"
  shows "GetDeviceData w c n = Inl (StatusError code)
     \<longleftrightarrow> StatusCode resp = code \<and> code \<noteq> 200"
  unfolding GetDeviceData_answered [OF assms]
  by (auto split: sum.splits list.splits)

theorem status_error_iff_not_200_witness:
  "url_error (one_node_world bare_node None 503 (answer ''dc1'' ''r12''))
      (URL (sent_request the_client ''node2'')) = None
   \<and> http_Do (one_node_world bare_node None 503 (answer ''dc1'' ''r12''))
      (sent_request the_client ''node2'') = Inr \<lparr>StatusCode = 503, Body = []\<rparr>
   \<and> GetDeviceData (one_node_world bare_node None 503 (answer ''dc1'' ''r12''))
      the_client ''node2'' = Inl (StatusError 503)"
proof -
  let ?w = "one_node_world bare_node None 503 (answer ''dc1'' ''r12'')"
  have u: "url_error ?w (URL (sent_request the_client ''node2'')) = None"
    by (simp add: one_node_world_def)
  have h: "http_Do ?w (sent_request the_client ''node2'') = Inr \<lparr>StatusCode = 503, Body = []\<rparr>"
    by (simp add: one_node_world_def)
  show ?thesis
    using status_error_iff_not_200 [OF u h, of 503] u h by simp
qed

text \<open>
  Claim C9 as the specification words it exempts every 2xx status. A response with
  status 204 makes the lookup fail with the status error.
\<close>

theorem status_2xx_counterexample:
  "(200::int) \<le> 204 \<and> (204::int) < 300
   \<and> http_Do (one_node_world bare_node None 204 (answer ''dc1'' ''r12''))
      (sent_request the_client ''node2'') = Inr \<lparr>StatusCode = 204, Body = []\<rparr>
   \<and> GetDeviceData (one_node_world bare_node None 204 (answer ''dc1'' ''r12''))
      the_client ''node2'' = Inl (StatusError 204)"
  by (simp add: one_node_world_simps) (simp add: one_node_world_def)

section \<open>A key is never empty\<close>

text \<open>
  Claim C10. A non-empty identity never gives an empty key; an identity whose first
  character is a dot is its own key.
\<close>

theorem hostname_nonempty:
  "s \<noteq> [] \<Longrightarrow> hostname s \<noteq> [] \<and> (hd s = CHR ''.'' \<longrightarrow> hostname s = s)"
  by (cases s) (auto simp: hostname_char)

theorem hostname_nonempty_witness:
  "''.local'' \<noteq> [] \<and> hostname ''.local'' \<noteq> [] \<and> hd ''.local'' = CHR ''.''
   \<and> hostname ''.local'' = ''.local''"
  using hostname_nonempty [of "''.local''"] by simp

end
